theory Spec2Isabelle
  imports Main
begin

section \<open>The C++ binding of the normalizers\<close>

text \<open>
  \<^verbatim>\<open>tokenizers-cpp/normalizers.h\<close> (and its older copy, in which the builder is called
  \<^verbatim>\<open>BertNormalizerOptions\<close>) is a header of inline wrappers. Each wrapper owns a handle
  \<^verbatim>\<open>inner_\<close> to a value of the engine and forwards to a function of namespace
  \<^verbatim>\<open>ffi\<close>. The engine functions are declared in \<^verbatim>\<open>normalizers.rs.h\<close> and the helper
  macros and conversions in \<^verbatim>\<open>common.h\<close>; both are outside the sources at hand, so the
  engine is a parameter of every wrapper below: the members of \<^verbatim>\<open>NormalizedString\<close>
  take a record of the engine functions they call, and the other wrappers take the one
  engine function they call as a leading argument, under the name the header calls it by.
  A handle is a value of an arbitrary type.
\<close>

subsection \<open>Data\<close>

text \<open>The enumeration \<^verbatim>\<open>BertStripAccents\<close> with its enumerators \<^verbatim>\<open>True\<close>,
  \<^verbatim>\<open>False\<close> and \<^verbatim>\<open>DeterminedByLowercase\<close>.\<close>

datatype BertStripAccents = False_BSA | True_BSA | DeterminedByLowercase

text \<open>\<^verbatim>\<open>HFT_FFI_WRAPPER(T)\<close> gives a struct the single member \<^verbatim>\<open>inner_\<close>.\<close>

datatype 'h NormalizedString = NormalizedString (inner_ns: 'h)

datatype 'h Normalizer = Normalizer (inner_nz: 'h)

datatype 'h BertNormalizer = BertNormalizer (inner_bn: 'h)

text \<open>
  \<^verbatim>\<open>BertNormalizerBuilder\<close>: three members declared by \<^verbatim>\<open>HFT_BUILDER_ARG\<close> and
  \<^verbatim>\<open>strip_accents\<close>, in the order of declaration. \<^verbatim>\<open>BertNormalizerOptions\<close> of the older
  header declares the same four members with the same initialisers.
\<close>

record BertNormalizerBuilder =
  clean_text :: bool
  handle_chinese_chars :: bool
  lowercase :: bool
  strip_accents :: BertStripAccents

type_synonym BertNormalizerOptions = BertNormalizerBuilder

subsection \<open>NormalizedString\<close>

text \<open>
  The engine functions and conversions that the members of \<^verbatim>\<open>NormalizedString\<close> call,
  gathered into one structure: \<^verbatim>\<open>ffi::to_rust_str\<close>, \<^verbatim>\<open>ffi::to_string_view\<close>,
  \<^verbatim>\<open>ffi::normalized_string\<close>, \<^verbatim>\<open>ffi::get_normalized\<close> and \<^verbatim>\<open>ffi::get_original\<close>.
  An engine is any value of this record; \<open>'rs\<close> is the engine's string type and \<open>'h\<close>
  the type of its handles. The two accessors are separate fields, so a member is told
  apart by which of them it reads.
\<close>

record ('rs, 'h) ffi =
  ffi_to_rust_str :: "string \<Rightarrow> 'rs"
  ffi_to_string_view :: "'rs \<Rightarrow> string"
  ffi_normalized_string :: "'rs \<Rightarrow> 'h"
  ffi_get_normalized :: "'h \<Rightarrow> 'rs"
  ffi_get_original :: "'h \<Rightarrow> 'rs"

text \<open>The constructor: \<^verbatim>\<open>inner_(ffi::normalized_string(ffi::to_rust_str(str)))\<close>.\<close>

definition NormalizedString_new :: "('rs, 'h) ffi \<Rightarrow> string \<Rightarrow> 'h NormalizedString" where
  "NormalizedString_new E str =
     NormalizedString (ffi_normalized_string E (ffi_to_rust_str E str))"

text \<open>\<^verbatim>\<open>get_normalized\<close>: \<^verbatim>\<open>ffi::to_string_view(ffi::get_normalized(*inner_))\<close>.\<close>

definition get_normalized :: "('rs, 'h) ffi \<Rightarrow> 'h NormalizedString \<Rightarrow> string" where
  "get_normalized E this = ffi_to_string_view E (ffi_get_normalized E (inner_ns this))"

text \<open>\<^verbatim>\<open>get_original\<close>: \<^verbatim>\<open>ffi::to_string_view(ffi::get_original(*inner_))\<close>.\<close>

definition get_original :: "('rs, 'h) ffi \<Rightarrow> 'h NormalizedString \<Rightarrow> string" where
  "get_original E this = ffi_to_string_view E (ffi_get_original E (inner_ns this))"

text \<open>\<^verbatim>\<open>operator nonstd::string_view()\<close>: \<^verbatim>\<open>return get_normalized();\<close>.\<close>

definition operator_string_view :: "('rs, 'h) ffi \<Rightarrow> 'h NormalizedString \<Rightarrow> string" where
  "operator_string_view E this = get_normalized E this"

text \<open>
  A concrete engine, the input of the examples below: its strings are the binding's
  strings, and a handle is the pair of the original and the normalized text.
\<close>

definition pair_ffi :: "(string, string \<times> string) ffi" where
  "pair_ffi =
     \<lparr>ffi_to_rust_str = (\<lambda>s. s), ffi_to_string_view = (\<lambda>s. s),
      ffi_normalized_string = (\<lambda>s. (s, s)),
      ffi_get_normalized = snd, ffi_get_original = fst\<rparr>"

subsection \<open>Normalizer and the older BertNormalizer\<close>

text \<open>\<^verbatim>\<open>Normalizer::bert\<close>: \<^verbatim>\<open>return {ffi::bert_normalizer(clean_text,
  handle_chinese_chars, strip_accents, lowercase)};\<close>.\<close>

definition Normalizer_bert ::
  "(bool \<Rightarrow> bool \<Rightarrow> BertStripAccents \<Rightarrow> bool \<Rightarrow> 'h) \<Rightarrow>
   bool \<Rightarrow> bool \<Rightarrow> BertStripAccents \<Rightarrow> bool \<Rightarrow> 'h Normalizer" where
  "Normalizer_bert ffi_bert_normalizer clean_text' handle_chinese_chars' strip_accents' lowercase' =
     Normalizer (ffi_bert_normalizer clean_text' handle_chinese_chars' strip_accents' lowercase')"

text \<open>The constructor of \<^verbatim>\<open>BertNormalizer\<close> in the older header:
  \<^verbatim>\<open>inner_(ffi::bert_normalizer(clean_text, handle_chinese_chars, strip_accents,
  lowercase))\<close>.\<close>

definition BertNormalizer_new ::
  "(bool \<Rightarrow> bool \<Rightarrow> BertStripAccents \<Rightarrow> bool \<Rightarrow> 'h) \<Rightarrow>
   bool \<Rightarrow> bool \<Rightarrow> BertStripAccents \<Rightarrow> bool \<Rightarrow> 'h BertNormalizer" where
  "BertNormalizer_new ffi_bert_normalizer clean_text' handle_chinese_chars' strip_accents' lowercase' =
     BertNormalizer (ffi_bert_normalizer clean_text' handle_chinese_chars' strip_accents' lowercase')"

text \<open>
  \<^verbatim>\<open>Normalizer::normalize\<close>: \<^verbatim>\<open>HFT_TRY_VOID(ffi::normalize(*inner_, *normalized));\<close>.
  The engine works on the NormalizedString in place and may fail, so the engine function
  returns the handle as it leaves it together with the error, if any; the wrapper hands
  both on.
\<close>

definition normalize ::
  "('z \<Rightarrow> 'h \<Rightarrow> 'h \<times> 'e option) \<Rightarrow> 'z Normalizer \<Rightarrow> 'h NormalizedString \<Rightarrow>
   'h NormalizedString \<times> 'e option" where
  "normalize ffi_normalize this normalized =
     (case ffi_normalize (inner_nz this) (inner_ns normalized) of
        (h, r) \<Rightarrow> (NormalizedString h, r))"

subsection \<open>The builder\<close>

text \<open>
  A default-constructed builder: the initialisers of the four members,
  \<^verbatim>\<open>HFT_BUILDER_ARG(bool, clean_text, true)\<close>,
  \<^verbatim>\<open>HFT_BUILDER_ARG(bool, handle_chinese_chars, true)\<close>,
  \<^verbatim>\<open>HFT_BUILDER_ARG(bool, lowercase, true)\<close> and
  \<^verbatim>\<open>strip_accents = BertStripAccents::DeterminedByLowercase\<close>.
\<close>

definition BertNormalizerBuilder_new :: BertNormalizerBuilder where
  "BertNormalizerBuilder_new =
     \<lparr>clean_text = True, handle_chinese_chars = True, lowercase = True,
      strip_accents = DeterminedByLowercase\<rparr>"

text \<open>
  Modelled from the spec: the setters that the macro \<^verbatim>\<open>HFT_BUILDER_ARG(type, name,
  default)\<close> of \<^verbatim>\<open>common.h\<close> declares beside the member; the macro is not among the
  sources. The spec speaks of a builder pattern, and \<^verbatim>\<open>with_strip_accents\<close>, which the
  header writes out, shows it: \<^verbatim>\<open>with_name(v)\<close> stores \<open>v\<close> in the member and returns
  the builder.
\<close>

definition with_clean_text :: "bool \<Rightarrow> BertNormalizerBuilder \<Rightarrow> BertNormalizerBuilder" where
  "with_clean_text v this = this\<lparr>clean_text := v\<rparr>"

definition with_handle_chinese_chars ::
  "bool \<Rightarrow> BertNormalizerBuilder \<Rightarrow> BertNormalizerBuilder" where
  "with_handle_chinese_chars v this = this\<lparr>handle_chinese_chars := v\<rparr>"

definition with_lowercase :: "bool \<Rightarrow> BertNormalizerBuilder \<Rightarrow> BertNormalizerBuilder" where
  "with_lowercase v this = this\<lparr>lowercase := v\<rparr>"

text \<open>\<^verbatim>\<open>with_strip_accents\<close>, the same in both headers:
  \<^verbatim>\<open>this->strip_accents = strip_accents ? BertStripAccents::True :
  BertStripAccents::False; return *this;\<close>.\<close>

definition with_strip_accents :: "bool \<Rightarrow> BertNormalizerBuilder \<Rightarrow> BertNormalizerBuilder" where
  "with_strip_accents strip_accents' this =
     this\<lparr>strip_accents := (if strip_accents' then True_BSA else False_BSA)\<rparr>"

text \<open>\<^verbatim>\<open>BertNormalizerBuilder::build\<close>: \<^verbatim>\<open>return Normalizer::bert(clean_text,
  handle_chinese_chars, strip_accents, lowercase);\<close>.\<close>

definition build ::
  "(bool \<Rightarrow> bool \<Rightarrow> BertStripAccents \<Rightarrow> bool \<Rightarrow> 'h) \<Rightarrow> BertNormalizerBuilder \<Rightarrow>
   'h Normalizer" where
  "build ffi_bert_normalizer this =
     Normalizer_bert ffi_bert_normalizer
       (clean_text this) (handle_chinese_chars this) (strip_accents this) (lowercase this)"

text \<open>\<^verbatim>\<open>BertNormalizerOptions::build\<close> of the older header: \<^verbatim>\<open>return
  BertNormalizer(clean_text, handle_chinese_chars, strip_accents, lowercase);\<close>.\<close>

definition options_build ::
  "(bool \<Rightarrow> bool \<Rightarrow> BertStripAccents \<Rightarrow> bool \<Rightarrow> 'h) \<Rightarrow> BertNormalizerOptions \<Rightarrow>
   'h BertNormalizer" where
  "options_build ffi_bert_normalizer this =
     BertNormalizer_new ffi_bert_normalizer
       (clean_text this) (handle_chinese_chars this) (strip_accents this) (lowercase this)"

subsection \<open>The engine's Bert configuration\<close>

text \<open>
  Modelled from the spec: \<^verbatim>\<open>ffi::bert_normalizer\<close>, the engine's constructor of the Bert
  variant, which is Rust code outside the sources at hand. The spec gives the variant the
  configuration clean_text, handle_chinese_chars, strip_accents and lowercase, and has
  ``\<^verbatim>\<open>strip_accents = DeterminedByLowercase\<close> resolve to \<^verbatim>\<open>True\<close> iff
  \<^verbatim>\<open>lowercase = True\<close>, else \<^verbatim>\<open>False\<close>, resolved once at construction''; the header says
  of the builder's default that accents ``are stripped if lowercase is true, not stripped
  otherwise''. So the constructed value holds a plain boolean for strip_accents.
\<close>

record BertConfig =
  cfg_clean_text :: bool
  cfg_handle_chinese_chars :: bool
  cfg_strip_accents :: bool
  cfg_lowercase :: bool

fun resolve_strip_accents :: "BertStripAccents \<Rightarrow> bool \<Rightarrow> bool" where
  "resolve_strip_accents True_BSA lowercase' = True"
| "resolve_strip_accents False_BSA lowercase' = False"
| "resolve_strip_accents DeterminedByLowercase lowercase' = lowercase'"

definition bert_normalizer :: "bool \<Rightarrow> bool \<Rightarrow> BertStripAccents \<Rightarrow> bool \<Rightarrow> BertConfig" where
  "bert_normalizer clean_text' handle_chinese_chars' strip_accents' lowercase' =
     \<lparr>cfg_clean_text = clean_text', cfg_handle_chinese_chars = handle_chinese_chars',
      cfg_strip_accents = resolve_strip_accents strip_accents' lowercase',
      cfg_lowercase = lowercase'\<rparr>"

section \<open>Properties\<close>

text \<open>
  C9. Converting a NormalizedString to a string view yields the current normalized text:
  for every engine and every NormalizedString the conversion is the value
  \<^verbatim>\<open>get_normalized()\<close> returns, which is the engine's \<^verbatim>\<open>ffi::get_normalized\<close> of the
  handle seen through \<^verbatim>\<open>ffi::to_string_view\<close>. It is not the original text: the
  conversion follows the engine's normalized accessor when that is replaced, stays the
  same when the engine's \<^verbatim>\<open>ffi::get_original\<close> is replaced by any other function, and
  differs from \<^verbatim>\<open>get_original()\<close> wherever the two texts differ.
\<close>

theorem operator_string_view_is_normalized:
  "operator_string_view E ns = get_normalized E ns
   \<and> operator_string_view E ns = ffi_to_string_view E (ffi_get_normalized E (inner_ns ns))
   \<and> operator_string_view (E\<lparr>ffi_get_normalized := g\<rparr>) ns
       = ffi_to_string_view E (g (inner_ns ns))
   \<and> operator_string_view (E\<lparr>ffi_get_original := g\<rparr>) ns = operator_string_view E ns
   \<and> (get_normalized E ns \<noteq> get_original E ns
       \<longrightarrow> operator_string_view E ns \<noteq> get_original E ns)"
  by (simp add: operator_string_view_def get_normalized_def)

text \<open>
  At the engine \<open>pair_ffi\<close> and the handle \<open>(''Ab'', ''ab'')\<close>, whose original text is
  \<open>''Ab''\<close> and whose normalized text is \<open>''ab''\<close>, the conversion is \<open>''ab''\<close>.
\<close>

theorem operator_string_view_is_normalized_witness:
  "get_normalized pair_ffi (NormalizedString (''Ab'', ''ab''))
     \<noteq> get_original pair_ffi (NormalizedString (''Ab'', ''ab''))
   \<and> get_original pair_ffi (NormalizedString (''Ab'', ''ab'')) = ''Ab''
   \<and> operator_string_view pair_ffi (NormalizedString (''Ab'', ''ab'')) = ''ab''
   \<and> operator_string_view pair_ffi (NormalizedString (''Ab'', ''ab''))
     \<noteq> get_original pair_ffi (NormalizedString (''Ab'', ''ab''))"
  using operator_string_view_is_normalized
    [of pair_ffi "NormalizedString (''Ab'', ''ab'')"]
  by (simp add: get_normalized_def get_original_def pair_ffi_def)

subsection \<open>Setters\<close>

lemma with_clean_text_fields:
  "clean_text (with_clean_text v b) = v"
  "handle_chinese_chars (with_clean_text v b) = handle_chinese_chars b"
  "lowercase (with_clean_text v b) = lowercase b"
  "strip_accents (with_clean_text v b) = strip_accents b"
  by (simp_all add: with_clean_text_def)

lemma with_handle_chinese_chars_fields:
  "clean_text (with_handle_chinese_chars v b) = clean_text b"
  "handle_chinese_chars (with_handle_chinese_chars v b) = v"
  "lowercase (with_handle_chinese_chars v b) = lowercase b"
  "strip_accents (with_handle_chinese_chars v b) = strip_accents b"
  by (simp_all add: with_handle_chinese_chars_def)

lemma with_lowercase_fields:
  "clean_text (with_lowercase v b) = clean_text b"
  "handle_chinese_chars (with_lowercase v b) = handle_chinese_chars b"
  "lowercase (with_lowercase v b) = v"
  "strip_accents (with_lowercase v b) = strip_accents b"
  by (simp_all add: with_lowercase_def)

lemma with_strip_accents_fields:
  "clean_text (with_strip_accents v b) = clean_text b"
  "handle_chinese_chars (with_strip_accents v b) = handle_chinese_chars b"
  "lowercase (with_strip_accents v b) = lowercase b"
  "strip_accents (with_strip_accents v b) = (if v then True_BSA else False_BSA)"
  by (simp_all add: with_strip_accents_def)

lemma build_inner:
  "inner_nz (build f b) = f (clean_text b) (handle_chinese_chars b) (strip_accents b) (lowercase b)"
  by (simp add: build_def Normalizer_bert_def)

lemma options_build_inner:
  "inner_bn (options_build f b)
     = f (clean_text b) (handle_chinese_chars b) (strip_accents b) (lowercase b)"
  by (simp add: options_build_def BertNormalizer_new_def)

text \<open>
  C10. A builder on which no setter was called makes the engine call
  \<^verbatim>\<open>bert_normalizer(true, true, DeterminedByLowercase, true)\<close>, and \<^verbatim>\<open>build()\<close> of any
  builder passes the four members as they stand, each in the position of the parameter
  of its name (strip_accents third and lowercase fourth, although the struct declares
  lowercase first). The same holds of \<^verbatim>\<open>BertNormalizerOptions\<close> in the older header. The
  engine function \<open>f\<close> is arbitrary.
\<close>

theorem builder_defaults_and_forwarding:
  "build f BertNormalizerBuilder_new = Normalizer (f True True DeterminedByLowercase True)
   \<and> build f b = Normalizer_bert f (clean_text b) (handle_chinese_chars b) (strip_accents b) (lowercase b)
   \<and> inner_nz (build f b)
       = f (clean_text b) (handle_chinese_chars b) (strip_accents b) (lowercase b)
   \<and> options_build f BertNormalizerBuilder_new
       = BertNormalizer (f True True DeterminedByLowercase True)
   \<and> inner_bn (options_build f b)
       = f (clean_text b) (handle_chinese_chars b) (strip_accents b) (lowercase b)"
  by (simp add: build_def options_build_def Normalizer_bert_def BertNormalizer_new_def
      BertNormalizerBuilder_new_def)

text \<open>
  C3. With the engine's constructor as the spec describes it: a Bert normalizer
  constructed with \<^verbatim>\<open>DeterminedByLowercase\<close> holds, from construction on, the value of
  \<^verbatim>\<open>lowercase\<close> as its strip-accents flag, and so does the normalizer a builder builds
  whose strip_accents member is still \<^verbatim>\<open>DeterminedByLowercase\<close>. After
  \<^verbatim>\<open>with_strip_accents(v)\<close> the member is \<^verbatim>\<open>True\<close> or \<^verbatim>\<open>False\<close> as \<open>v\<close> says, and the
  built normalizer's flag is \<open>v\<close> whatever the lowercase member is, also when
  \<^verbatim>\<open>with_lowercase\<close> is called after it. Both headers' builders behave so.
\<close>

theorem strip_accents_resolution:
  "cfg_strip_accents (bert_normalizer c h DeterminedByLowercase l) = l
   \<and> cfg_strip_accents (bert_normalizer c h True_BSA l) = True
   \<and> cfg_strip_accents (bert_normalizer c h False_BSA l) = False
   \<and> cfg_strip_accents (inner_nz (build bert_normalizer
        (b\<lparr>strip_accents := DeterminedByLowercase\<rparr>))) = lowercase b
   \<and> cfg_strip_accents (inner_bn (options_build bert_normalizer
        (b\<lparr>strip_accents := DeterminedByLowercase\<rparr>))) = lowercase b
   \<and> strip_accents (with_strip_accents v b) = (if v then True_BSA else False_BSA)
   \<and> cfg_strip_accents (inner_nz (build bert_normalizer (with_strip_accents v b))) = v
   \<and> cfg_strip_accents (inner_nz (build bert_normalizer
        (with_lowercase l (with_strip_accents v b)))) = v
   \<and> cfg_strip_accents (inner_bn (options_build bert_normalizer
        (with_lowercase l (with_strip_accents v b)))) = v"
  by (simp add: build_inner options_build_inner bert_normalizer_def
      with_strip_accents_fields with_lowercase_fields)

end
